theory Spec2Isabelle
  imports Main
begin

section \<open>The release-tagging script \<open>scripts/tag-release.mjs\<close>\<close>

text \<open>
  The script is glue over the Node.js runtime: it reads one option, reads and parses one
  file, and calls \<open>exec\<close> once for each element of the parsed array, where
  \<open>exec = promisify(execSync)\<close>. The model below follows the script line by line.
  What the script takes from its surroundings is a parameter of the model:
  the value commander leaves in \<open>tag\<close>, the URL of the module, the file system as
  \<open>readFile\<close> answers, \<open>JSON.parse\<close>, the conversion of a number to a string, and
  the behaviour of the shell commands.
\<close>

subsection \<open>Values\<close>

text \<open>
  What \<open>JSON.parse\<close> can return. The type of numbers is a parameter. An object is the list
  of its own properties; \<open>JSON.parse\<close> leaves each key once.
\<close>

datatype 'n json =
    JNull
  | JBool bool
  | JNum 'n
  | JStr string
  | JArr "'n json list"
  | JObj "(string \<times> 'n json) list"

datatype error =
    Error string
  | SyntaxError
  | TypeError
  | ReadError string
  | ExecError string nat

text \<open>
  How a synchronous call ends: it returns a value, it throws, or it never returns
  (\<open>Blocked\<close>: \<open>execSync\<close> waits for a child process that does not exit).
\<close>

datatype 'a completion = Return 'a | Throw error | Blocked

datatype promise = Pending | Fulfilled | Rejected error

text \<open>What the callback given to \<open>map\<close> can hand to \<open>Promise.all\<close>.\<close>

datatype jsval = Undefined | Promise promise

text \<open>
  The observable events of a run, in the order they happen: a file is read, a child process
  is spawned for a command line, that child exits with a status.
\<close>

datatype event = ReadFile string | Spawn string | Exit string nat

record 'n env =
  module_url :: "string list"
  read_file :: "string \<Rightarrow> string + string"
  json_parse :: "string \<Rightarrow> 'n json option"
  num_string :: "'n \<Rightarrow> string"
  sh :: "string \<Rightarrow> nat option"

text \<open>
  \<open>module_url\<close> is the path of \<open>import.meta.url\<close>, split at \<open>/\<close>; its last segment is the
  script's file name. \<open>read_file\<close> answers \<open>Inl\<close> with the error code when the file is
  missing or unreadable. \<open>json_parse\<close> answers \<open>None\<close> for a \<open>SyntaxError\<close>.
  \<open>sh c\<close> is the exit status of the command line \<open>c\<close>, or \<open>None\<close> when it never exits.
\<close>

subsection \<open>The path of the summary (line 13)\<close>

text \<open>
  \<open>new URL('../lerna-publish-summary.json', import.meta.url)\<close>, by the steps of the URL
  parser for a relative reference against a \<open>file\<close> URL: the path starts as the path of
  the base and is shortened once, which drops the script's file name; the segment \<open>..\<close>
  shortens it again; the segment \<open>lerna-publish-summary.json\<close> is appended. Shortening
  removes the last segment, if there is one, except that a path that is only a Windows drive
  letter is kept. \<open>.pathname\<close> writes the segments with a \<open>/\<close> in front of each. This
  string goes to \<open>readFile\<close> as it is.
\<close>

definition is_drive_letter :: "string \<Rightarrow> bool" where
  "is_drive_letter s =
     (case s of
        [a, b] \<Rightarrow>
          a \<in> set ''abcdefghijklmnopqrstuvwxyzABCDEFGHIJKLMNOPQRSTUVWXYZ'' \<and> b = CHR '':''
      | _ \<Rightarrow> False)"

definition shorten :: "string list \<Rightarrow> string list" where
  "shorten p = (if length p = 1 \<and> is_drive_letter (hd p) then p else butlast p)"

definition pathname :: "string list \<Rightarrow> string" where
  "pathname segs = concat (map (\<lambda>s. ''/'' @ s) segs)"

definition summary_path :: "'n env \<Rightarrow> string" where
  "summary_path env =
     pathname (shorten (shorten (module_url env)) @ [''lerna-publish-summary.json''])"

subsection \<open>The template literal (line 20)\<close>

text \<open>
  A template literal converts each interpolated value with \<open>ToString\<close>. For a value out of
  \<open>JSON.parse\<close>: a string is itself; \<open>null\<close>, \<open>true\<close> and \<open>false\<close> are their names; an array
  joins its elements with commas, a \<open>null\<close> element giving the empty string; an object
  gives \<open>[object Object]\<close> through \<open>Object.prototype.toString\<close>, unless it has an own
  property \<open>toString\<close>, which after \<open>JSON.parse\<close> is never callable, and then the
  conversion throws a \<open>TypeError\<close>. \<open>undefined\<close> is the text \<open>undefined\<close>.
\<close>

fun join :: "string \<Rightarrow> string list \<Rightarrow> string" where
  "join sep [] = []"
| "join sep [x] = x"
| "join sep (x # y # ys) = x @ sep @ join sep (y # ys)"

fun sequence :: "(error + 'a) list \<Rightarrow> error + 'a list" where
  "sequence [] = Inr []"
| "sequence (Inl e # rs) = Inl e"
| "sequence (Inr x # rs) = (case sequence rs of Inl e \<Rightarrow> Inl e | Inr xs \<Rightarrow> Inr (x # xs))"

fun to_string :: "('n \<Rightarrow> string) \<Rightarrow> 'n json \<Rightarrow> error + string" where
  "to_string ns JNull = Inr ''null''"
| "to_string ns (JBool b) = Inr (if b then ''true'' else ''false'')"
| "to_string ns (JNum n) = Inr (ns n)"
| "to_string ns (JStr s) = Inr s"
| "to_string ns (JArr xs) =
     (case sequence (map (\<lambda>x. if x = JNull then Inr [] else to_string ns x) xs) of
        Inl e \<Rightarrow> Inl e
      | Inr strs \<Rightarrow> Inr (join '','' strs))"
| "to_string ns (JObj kv) =
     (if ''toString'' \<in> fst ` set kv then Inl TypeError else Inr ''[object Object]'')"

definition interpolate :: "('n \<Rightarrow> string) \<Rightarrow> 'n json option \<Rightarrow> error + string" where
  "interpolate ns v = (case v of None \<Rightarrow> Inr ''undefined'' | Some j \<Rightarrow> to_string ns j)"

definition command :: "string \<Rightarrow> string \<Rightarrow> string \<Rightarrow> string" where
  "command packageName version tag =
     ''npm dist-tag add '' @ packageName @ ''@'' @ version @ '' '' @ tag"

definition template ::
  "('n \<Rightarrow> string) \<Rightarrow> 'n json option \<Rightarrow> 'n json option \<Rightarrow> string \<Rightarrow> error + string" where
  "template ns packageName version tag =
     (case interpolate ns packageName of
        Inl e \<Rightarrow> Inl e
      | Inr p \<Rightarrow>
          (case interpolate ns version of
             Inl e \<Rightarrow> Inl e
           | Inr v \<Rightarrow> Inr (command p v tag)))"

subsection \<open>The parameter pattern \<open>{packageName, version}\<close> (line 19)\<close>

text \<open>
  Destructuring \<open>null\<close> throws a \<open>TypeError\<close>. Any other value is read as an object: an
  object out of \<open>JSON.parse\<close> gives its own property or \<open>undefined\<close> (here \<open>None\<close>); a
  number, a string, a boolean or an array has no property of either name.
\<close>

fun destructure :: "'n json \<Rightarrow> error + ('n json option \<times> 'n json option)" where
  "destructure JNull = Inl TypeError"
| "destructure (JObj kv) = Inr (map_of kv ''packageName'', map_of kv ''version'')"
| "destructure (JBool b) = Inr (None, None)"
| "destructure (JNum n) = Inr (None, None)"
| "destructure (JStr s) = Inr (None, None)"
| "destructure (JArr xs) = Inr (None, None)"

subsection \<open>\<open>exec = promisify(execSync)\<close> (line 8)\<close>

text \<open>
  \<open>execSync\<close> spawns a shell for the command line and returns only when the child has
  exited; it throws when the exit status is not zero. Its return value is the child's output,
  which nothing in the script reads.
\<close>

definition execSync :: "(string \<Rightarrow> nat option) \<Rightarrow> string \<Rightarrow> event list \<times> unit completion" where
  "execSync shell cmd =
     (case shell cmd of
        None \<Rightarrow> ([Spawn cmd], Blocked)
      | Some status \<Rightarrow>
          ([Spawn cmd, Exit cmd status],
           if status = 0 then Return () else Throw (ExecError cmd status)))"

text \<open>
  \<open>promisify(f)\<close> calls \<open>f\<close> inside the executor of a new promise, with a callback appended
  to the arguments. A throw of \<open>f\<close> rejects the promise. \<open>execSync\<close> never calls the
  callback, so when it returns the promise stays pending.
\<close>

definition promisify ::
  "('a \<Rightarrow> event list \<times> 'b completion) \<Rightarrow> 'a \<Rightarrow> event list \<times> promise completion" where
  "promisify f x =
     (case f x of
        (evs, Return y) \<Rightarrow> (evs, Return Pending)
      | (evs, Throw e) \<Rightarrow> (evs, Return (Rejected e))
      | (evs, Blocked) \<Rightarrow> (evs, Blocked))"

definition exec :: "(string \<Rightarrow> nat option) \<Rightarrow> string \<Rightarrow> event list \<times> promise completion" where
  "exec shell = promisify (execSync shell)"

subsection \<open>The callback and \<open>map\<close> (lines 19 to 23)\<close>

text \<open>
  The body of the callback is an expression statement: the promise of \<open>exec\<close> is dropped
  and the callback returns \<open>undefined\<close>. A dropped promise that is rejected has no handler;
  the second component collects these rejections.
\<close>

fun dropped :: "promise \<Rightarrow> error list" where
  "dropped (Rejected e) = [e]"
| "dropped Pending = []"
| "dropped Fulfilled = []"

definition callback ::
  "'n env \<Rightarrow> string \<Rightarrow> 'n json \<Rightarrow> event list \<times> error list \<times> jsval completion" where
  "callback env tag entry =
     (case destructure entry of
        Inl e \<Rightarrow> ([], [], Throw e)
      | Inr (packageName, version) \<Rightarrow>
          (case template (num_string env) packageName version tag of
             Inl e \<Rightarrow> ([], [], Throw e)
           | Inr cmd \<Rightarrow>
               (case exec (sh env) cmd of
                  (evs, Return p) \<Rightarrow> (evs, dropped p, Return Undefined)
                | (evs, Throw e) \<Rightarrow> (evs, [], Throw e)
                | (evs, Blocked) \<Rightarrow> (evs, [], Blocked))))"

text \<open>\<open>Array.prototype.map\<close>: the elements in order; a throw of the callback ends it.\<close>

fun array_map ::
  "('a \<Rightarrow> event list \<times> error list \<times> 'b completion) \<Rightarrow> 'a list \<Rightarrow>
   event list \<times> error list \<times> 'b list completion" where
  "array_map f [] = ([], [], Return [])"
| "array_map f (x # xs) =
     (case f x of
        (evs, rs, Return y) \<Rightarrow>
          (case array_map f xs of
             (evs', rs', Return ys) \<Rightarrow> (evs @ evs', rs @ rs', Return (y # ys))
           | (evs', rs', Throw e) \<Rightarrow> (evs @ evs', rs @ rs', Throw e)
           | (evs', rs', Blocked) \<Rightarrow> (evs @ evs', rs @ rs', Blocked))
      | (evs, rs, Throw e) \<Rightarrow> (evs, rs, Throw e)
      | (evs, rs, Blocked) \<Rightarrow> (evs, rs, Blocked))"

text \<open>
  \<open>Promise.all\<close> of values that are already settled or no promises at all: rejected with the
  first rejection, otherwise pending while an element is pending, otherwise fulfilled.
\<close>

fun promise_all :: "jsval list \<Rightarrow> promise" where
  "promise_all [] = Fulfilled"
| "promise_all (Undefined # vs) = promise_all vs"
| "promise_all (Promise Fulfilled # vs) = promise_all vs"
| "promise_all (Promise (Rejected e) # vs) = Rejected e"
| "promise_all (Promise Pending # vs) =
     (case promise_all vs of Rejected e \<Rightarrow> Rejected e | Fulfilled \<Rightarrow> Pending | Pending \<Rightarrow> Pending)"

subsection \<open>\<open>main\<close> (lines 10 to 25)\<close>

text \<open>
  An \<open>async\<close> function returns a promise; a throw inside it rejects that promise. A value
  that is no array has no callable \<open>map\<close>, so the call throws a \<open>TypeError\<close>. The promise of
  \<open>Promise.all\<close> is awaited and \<open>main\<close> then ends, so its promise settles as that one does.
\<close>

definition main :: "'n env \<Rightarrow> string \<Rightarrow> event list \<times> error list \<times> promise completion" where
  "main env tag =
     (let path = summary_path env in
      case read_file env path of
        Inl code \<Rightarrow> ([ReadFile path], [], Return (Rejected (ReadError code)))
      | Inr text \<Rightarrow>
          (case json_parse env text of
             None \<Rightarrow> ([ReadFile path], [], Return (Rejected SyntaxError))
           | Some (JArr publishSummary) \<Rightarrow>
               (case array_map (callback env tag) publishSummary of
                  (evs, rs, Return vs) \<Rightarrow> (ReadFile path # evs, rs, Return (promise_all vs))
                | (evs, rs, Throw e) \<Rightarrow> (ReadFile path # evs, rs, Return (Rejected e))
                | (evs, rs, Blocked) \<Rightarrow> (ReadFile path # evs, rs, Blocked))
           | Some _ \<Rightarrow> ([ReadFile path], [], Return (Rejected TypeError))))"

subsection \<open>The module body (lines 27 to 37)\<close>

text \<open>
  \<open>tag\<close> is what commander leaves for the option \<open>--tag <tag>\<close>: \<open>undefined\<close> (here
  \<open>None\<close>) when the option is not given, the string otherwise. \<open>!tag\<close> holds for
  \<open>undefined\<close> and for the empty string. The promise of \<open>main(tag)\<close> gets no handler.

  A run ends with an exception thrown by the module body, or it never ends, or the module
  body ends and leaves the promise of \<open>main\<close> and the rejections nobody handles.
\<close>

datatype outcome = Uncaught error | Stuck | Finished promise "error list"

definition script :: "'n env \<Rightarrow> string option \<Rightarrow> event list \<times> outcome" where
  "script env tag =
     (case tag of
        None \<Rightarrow> ([], Uncaught (Error ''Required option `tag` not specified''))
      | Some t \<Rightarrow>
          if t = [] then ([], Uncaught (Error ''Required option `tag` not specified''))
          else
            (case main env t of
               (evs, rs, Return p) \<Rightarrow> (evs, Finished p (rs @ dropped p))
             | (evs, rs, Throw e) \<Rightarrow> (evs, Uncaught e)
             | (evs, rs, Blocked) \<Rightarrow> (evs, Stuck)))"

text \<open>
  The exit code of the process, under the default of Node.js since version 15: an uncaught
  exception and a rejection without a handler both end the process with code 1.
\<close>

fun exit_code :: "outcome \<Rightarrow> nat option" where
  "exit_code (Uncaught e) = Some 1"
| "exit_code Stuck = None"
| "exit_code (Finished p rs) = Some (if rs = [] then 0 else 1)"

subsection \<open>Reading a trace\<close>

fun spawned :: "event list \<Rightarrow> string list" where
  "spawned [] = []"
| "spawned (Spawn c # evs) = c # spawned evs"
| "spawned (ReadFile p # evs) = spawned evs"
| "spawned (Exit c s # evs) = spawned evs"

fun files_read :: "event list \<Rightarrow> string list" where
  "files_read [] = []"
| "files_read (ReadFile p # evs) = p # files_read evs"
| "files_read (Spawn c # evs) = files_read evs"
| "files_read (Exit c s # evs) = files_read evs"

text \<open>
  The rejections that the failed commands of a trace leave behind: \<open>execSync\<close> throws one
  error for each exit with a status other than zero.
\<close>

fun failures :: "event list \<Rightarrow> error list" where
  "failures [] = []"
| "failures (Exit c s # evs) = (if s = 0 then failures evs else ExecError c s # failures evs)"
| "failures (Spawn c # evs) = failures evs"
| "failures (ReadFile p # evs) = failures evs"

text \<open>The promise of \<open>main\<close> and how the module body ended, without the rejections.\<close>

fun control :: "outcome \<Rightarrow> outcome" where
  "control (Finished p rs) = Finished p []"
| "control (Uncaught e) = Uncaught e"
| "control Stuck = Stuck"

subsection \<open>Notions used to state the properties\<close>

text \<open>
  An element of the summary as the publishing tool writes it: an object whose
  \<open>packageName\<close> and \<open>version\<close> are the two strings of the pair.
\<close>

definition is_entry :: "'n json \<Rightarrow> string \<times> string \<Rightarrow> bool" where
  "is_entry e pv =
     (case e of
        JObj kv \<Rightarrow>
          map_of kv ''packageName'' = Some (JStr (fst pv)) \<and>
          map_of kv ''version'' = Some (JStr (snd pv))
      | _ \<Rightarrow> False)"

text \<open>The same surroundings with every exit status changed by \<open>f\<close>.\<close>

definition with_status :: "(nat \<Rightarrow> nat) \<Rightarrow> 'n env \<Rightarrow> 'n env" where
  "with_status f env = env\<lparr>sh := (\<lambda>c. map_option f (sh env c))\<rparr>"

text \<open>
  A concrete setting for the examples: the script lives in \<open>/repo/scripts\<close>, the summary
  file holds \<open>txt\<close>, which parses to \<open>doc\<close>, and the shell behaves as \<open>shell\<close>. Numbers are
  kept as their decimal text.
\<close>

definition example_env ::
  "string \<Rightarrow> string json option \<Rightarrow> (string \<Rightarrow> nat option) \<Rightarrow> string env" where
  "example_env txt doc shell =
     \<lparr> module_url = [''repo'', ''scripts'', ''tag-release.mjs''],
       read_file =
         (\<lambda>p. if p = ''/repo/lerna-publish-summary.json'' then Inr txt else Inl ''ENOENT''),
       json_parse = (\<lambda>s. if s = txt then doc else None),
       num_string = (\<lambda>n. n),
       sh = shell \<rparr>"

definition two_packages :: "string json" where
  "two_packages =
     JArr [JObj [(''packageName'', JStr ''pkg-a''), (''version'', JStr ''1.0.0'')],
           JObj [(''packageName'', JStr ''pkg-b''), (''version'', JStr ''2.3.1'')]]"

text \<open>The text of that summary; \<open>quoted s\<close> is \<open>s\<close> between double quotes.\<close>

definition quoted :: "string \<Rightarrow> string" where
  "quoted s = CHR 0x22 # s @ [CHR 0x22]"

definition two_packages_text :: string where
  "two_packages_text =
     ''[{'' @ quoted ''packageName'' @ '':'' @ quoted ''pkg-a'' @ '','' @
             quoted ''version'' @ '':'' @ quoted ''1.0.0'' @ ''},{'' @
             quoted ''packageName'' @ '':'' @ quoted ''pkg-b'' @ '','' @
             quoted ''version'' @ '':'' @ quoted ''2.3.1'' @ ''}]''"

definition two_packages_env :: "(string \<Rightarrow> nat option) \<Rightarrow> string env" where
  "two_packages_env shell = example_env two_packages_text (Some two_packages) shell"

definition empty_env :: "(string \<Rightarrow> nat option) \<Rightarrow> string env" where
  "empty_env shell = example_env ''[]'' (Some (JArr [])) shell"

text \<open>
  Shells: every command exits with the status \<open>s\<close>; no command ever exits; the command
  \<open>bad\<close> exits with status 1 and every other one with status 0.
\<close>

definition exits_with :: "nat \<Rightarrow> string \<Rightarrow> nat option" where
  "exits_with s c = Some s"

definition never_exits :: "string \<Rightarrow> nat option" where
  "never_exits c = None"

definition fails_on :: "string \<Rightarrow> string \<Rightarrow> nat option" where
  "fails_on bad c = (if c = bad then Some 1 else Some 0)"

text \<open>The command \<open>stuck\<close> never exits and every other one exits with status 0.\<close>

definition hangs_on :: "string \<Rightarrow> string \<Rightarrow> nat option" where
  "hangs_on stuck c = (if c = stuck then None else Some 0)"

text \<open>
  A checkout in the directory \<open>/w/sp ace\<close>: the URL of the module writes the space as
  \<open>%20\<close>, and the summary is in the file \<open>/w/sp ace/lerna-publish-summary.json\<close>.
\<close>

definition spaced_env :: "string env" where
  "spaced_env =
     \<lparr> module_url = [''w'', ''sp%20ace'', ''scripts'', ''tag-release.mjs''],
       read_file =
         (\<lambda>p. if p = ''/w/sp ace/lerna-publish-summary.json'' then Inr two_packages_text
              else Inl ''ENOENT''),
       json_parse = (\<lambda>s. if s = two_packages_text then Some two_packages else None),
       num_string = (\<lambda>n. n),
       sh = exits_with 0 \<rparr>"

section \<open>Properties\<close>

subsection \<open>Auxiliary facts\<close>

lemma spawned_append: "spawned (xs @ ys) = spawned xs @ spawned ys"
  by (induction xs rule: spawned.induct) simp_all

lemma files_read_append: "files_read (xs @ ys) = files_read xs @ files_read ys"
  by (induction xs rule: files_read.induct) simp_all

lemma failures_append: "failures (xs @ ys) = failures xs @ failures ys"
  by (induction xs rule: failures.induct) simp_all

lemma exec_cases:
  "exec shell c =
     (case shell c of
        None \<Rightarrow> ([Spawn c], Blocked)
      | Some s \<Rightarrow>
          ([Spawn c, Exit c s],
           Return (if s = 0 then Pending else Rejected (ExecError c s))))"
  by (simp add: exec_def promisify_def execSync_def split: option.split)

lemma callback_fields:
  assumes "interpolate (num_string env) (map_of kv ''packageName'') = Inr p"
    and "interpolate (num_string env) (map_of kv ''version'') = Inr v"
  shows "callback env t (JObj kv) =
     (case sh env (command p v t) of
        None \<Rightarrow> ([Spawn (command p v t)], [], Blocked)
      | Some s \<Rightarrow>
          ([Spawn (command p v t), Exit (command p v t) s],
           (if s = 0 then [] else [ExecError (command p v t) s]), Return Undefined))"
  using assms by (simp add: callback_def template_def exec_cases split: option.split)

text \<open>The three ways a call of the callback can go.\<close>

lemma callback_shape:
  "(\<exists>e. callback env t x = ([], [], Throw e)) \<or>
   (\<exists>c. callback env t x = ([Spawn c], [], Blocked) \<and> sh env c = None) \<or>
   (\<exists>c s. callback env t x =
      ([Spawn c, Exit c s], (if s = 0 then [] else [ExecError c s]), Return Undefined) \<and>
      sh env c = Some s)"
  by (auto simp: callback_def exec_cases split: sum.split option.split prod.split)

lemma callback_returns_undefined:
  "callback env t x = (evs, rs, Return v) \<Longrightarrow> v = Undefined"
  using callback_shape [of env t x] by auto

lemma callback_failures: "callback env t x = (evs, rs, c) \<Longrightarrow> rs = failures evs"
  using callback_shape [of env t x] by auto

lemma callback_files_read: "callback env t x = (evs, rs, c) \<Longrightarrow> files_read evs = []"
  using callback_shape [of env t x] by auto

lemma array_map_undefined:
  "array_map (callback env t) xs = (evs, rs, Return vs) \<Longrightarrow>
   vs = replicate (length xs) Undefined"
proof (induction xs arbitrary: evs rs vs)
  case Nil
  then show ?case by simp
next
  case (Cons x xs)
  then show ?case
    by (auto split: prod.splits completion.splits dest: callback_returns_undefined)
qed

lemma array_map_failures:
  "array_map (callback env t) xs = (evs, rs, c) \<Longrightarrow> rs = failures evs"
proof (induction xs arbitrary: evs rs c)
  case Nil
  then show ?case by simp
next
  case (Cons x xs)
  then show ?case
    by (auto simp: failures_append split: prod.splits completion.splits
        dest: callback_failures)
qed

lemma array_map_files_read:
  "array_map (callback env t) xs = (evs, rs, c) \<Longrightarrow> files_read evs = []"
proof (induction xs arbitrary: evs rs c)
  case Nil
  then show ?case by simp
next
  case (Cons x xs)
  then show ?case
    by (auto simp: files_read_append split: prod.splits completion.splits
        dest: callback_files_read)
qed

lemma promise_all_undefined: "promise_all (replicate n Undefined) = Fulfilled"
  by (induction n) simp_all

lemma summary_path_parent:
  assumes "module_url env = up @ [dir, file]"
    and "up \<noteq> [] \<or> \<not> is_drive_letter dir"
  shows "summary_path env = pathname (up @ [''lerna-publish-summary.json''])"
proof -
  have "shorten (up @ [dir, file]) = up @ [dir]"
    by (simp add: shorten_def butlast_append)
  moreover have "shorten (up @ [dir]) = up"
    using assms(2) by (cases up) (auto simp: shorten_def)
  ultimately show ?thesis by (simp add: summary_path_def assms(1))
qed

lemma main_files_read: "files_read (fst (main env t)) = [summary_path env]"
  by (auto simp: main_def Let_def split: sum.split option.split json.split prod.split
      completion.split dest: array_map_files_read)

lemma array_map_entries:
  assumes "list_all2 is_entry entries pvs"
    and "\<forall>pv\<in>set pvs. sh env (command (fst pv) (snd pv) t) \<noteq> None"
  shows "\<exists>evs rs. array_map (callback env t) entries =
            (evs, rs, Return (replicate (length entries) Undefined)) \<and>
          spawned evs = map (\<lambda>pv. command (fst pv) (snd pv) t) pvs"
  using assms
proof (induction rule: list_all2_induct)
  case Nil
  then show ?case by simp
next
  case (Cons e entries pv pvs)
  from Cons.hyps(1) obtain kv where e: "e = JObj kv"
    and p: "map_of kv ''packageName'' = Some (JStr (fst pv))"
    and v: "map_of kv ''version'' = Some (JStr (snd pv))"
    by (auto simp: is_entry_def split: json.splits)
  from Cons.prems obtain s where s: "sh env (command (fst pv) (snd pv) t) = Some s"
    by auto
  have cb: "callback env t e =
      ([Spawn (command (fst pv) (snd pv) t), Exit (command (fst pv) (snd pv) t) s],
       (if s = 0 then [] else [ExecError (command (fst pv) (snd pv) t) s]), Return Undefined)"
    using callback_fields [of env kv "fst pv" "snd pv" t] p v s e
    by (simp add: interpolate_def)
  from Cons.IH Cons.prems obtain evs rs where
    rest: "array_map (callback env t) entries =
             (evs, rs, Return (replicate (length entries) Undefined))"
    and sp: "spawned evs = map (\<lambda>pv. command (fst pv) (snd pv) t) pvs"
    by auto
  show ?case using cb rest sp by simp
qed

lemma callback_with_status:
  "spawned (fst (callback (with_status f env) t x)) = spawned (fst (callback env t x)) \<and>
   snd (snd (callback (with_status f env) t x)) = snd (snd (callback env t x))"
  by (auto simp: callback_def exec_cases with_status_def
      split: sum.split option.split prod.split)

lemma array_map_with_status:
  "spawned (fst (array_map (callback (with_status f env) t) xs)) =
     spawned (fst (array_map (callback env t) xs)) \<and>
   snd (snd (array_map (callback (with_status f env) t) xs)) =
     snd (snd (array_map (callback env t) xs))"
proof (induction xs)
  case Nil
  then show ?case by simp
next
  case (Cons x xs)
  obtain e1 r1 c1 where a: "callback env t x = (e1, r1, c1)" by (cases "callback env t x")
  obtain e2 r2 c2 where b: "callback (with_status f env) t x = (e2, r2, c2)"
    by (cases "callback (with_status f env) t x")
  obtain e3 r3 c3 where c: "array_map (callback env t) xs = (e3, r3, c3)"
    by (cases "array_map (callback env t) xs")
  obtain e4 r4 c4 where d: "array_map (callback (with_status f env) t) xs = (e4, r4, c4)"
    by (cases "array_map (callback (with_status f env) t) xs")
  from callback_with_status [of f env t x] a b have 1: "spawned e2 = spawned e1" "c2 = c1"
    by simp_all
  from Cons.IH c d have 2: "spawned e4 = spawned e3" "c4 = c3" by simp_all
  show ?case using a b c d 1 2
    by (simp add: spawned_append split: completion.split)
qed

lemma main_with_status:
  "spawned (fst (main (with_status f env) t)) = spawned (fst (main env t)) \<and>
   snd (snd (main (with_status f env) t)) = snd (snd (main env t))"
proof -
  have [simp]: "summary_path (with_status f env) = summary_path env"
    "read_file (with_status f env) = read_file env"
    "json_parse (with_status f env) = json_parse env"
    by (simp_all add: with_status_def summary_path_def)
  show ?thesis
  proof (cases "read_file env (summary_path env)")
    case (Inl err)
    then show ?thesis by (simp add: main_def)
  next
    case (Inr body)
    show ?thesis
    proof (cases "json_parse env body")
      case None
      with Inr show ?thesis by (simp add: main_def)
    next
      case (Some j)
      show ?thesis
      proof (cases "\<exists>xs. j = JArr xs")
        case False
        with Inr Some show ?thesis by (cases j) (simp_all add: main_def)
      next
        case True
        then obtain xs where j: "j = JArr xs" by blast
        obtain e3 r3 c3 where c: "array_map (callback env t) xs = (e3, r3, c3)"
          by (cases "array_map (callback env t) xs")
        obtain e4 r4 c4 where d: "array_map (callback (with_status f env) t) xs = (e4, r4, c4)"
          by (cases "array_map (callback (with_status f env) t) xs")
        from array_map_with_status [of f env t xs] c d
        have "spawned e4 = spawned e3" "c4 = c3" by simp_all
        with Inr Some j c d show ?thesis
          by (simp add: main_def Let_def split: completion.split)
      qed
    qed
  qed
qed

lemma main_failures:
  "main env t = (evs, rs, c) \<Longrightarrow> rs = failures evs"
  by (auto simp: main_def Let_def split: sum.splits option.splits json.splits prod.splits
      completion.splits dest: array_map_failures)


lemma script_run:
  "t \<noteq> [] \<Longrightarrow> script env (Some t) =
     (case main env t of
        (evs, rs, Return p) \<Rightarrow> (evs, Finished p (rs @ dropped p))
      | (evs, rs, Throw e) \<Rightarrow> (evs, Uncaught e)
      | (evs, rs, Blocked) \<Rightarrow> (evs, Stuck))"
  by (simp add: script_def)

lemma main_array:
  assumes "read_file env (summary_path env) = Inr body"
    and "json_parse env body = Some (JArr xs)"
  shows "main env t =
     (case array_map (callback env t) xs of
        (evs, rs, Return vs) \<Rightarrow> (ReadFile (summary_path env) # evs, rs, Return (promise_all vs))
      | (evs, rs, Throw e) \<Rightarrow> (ReadFile (summary_path env) # evs, rs, Return (Rejected e))
      | (evs, rs, Blocked) \<Rightarrow> (ReadFile (summary_path env) # evs, rs, Blocked))"
  using assms by (simp add: main_def Let_def)

text \<open>The examples, evaluated.\<close>

lemma example_path:
  "summary_path (example_env body doc shell) = ''/repo/lerna-publish-summary.json''"
  by (simp add: example_env_def summary_path_def shorten_def pathname_def)

lemma example_read:
  "read_file (example_env body doc shell) ''/repo/lerna-publish-summary.json'' = Inr body"
  "json_parse (example_env body doc shell) body = doc"
  "sh (example_env body doc shell) = shell"
  "num_string (example_env body doc shell) = (\<lambda>n. n)"
  by (simp_all add: example_env_def)

lemma two_packages_run:
  "script (two_packages_env shell) (Some ''latest'') =
     (case shell ''npm dist-tag add pkg-a@1.0.0 latest'' of
        None \<Rightarrow>
          ([ReadFile ''/repo/lerna-publish-summary.json'',
            Spawn ''npm dist-tag add pkg-a@1.0.0 latest''], Stuck)
      | Some a \<Rightarrow>
          (case shell ''npm dist-tag add pkg-b@2.3.1 latest'' of
             None \<Rightarrow>
               ([ReadFile ''/repo/lerna-publish-summary.json'',
                 Spawn ''npm dist-tag add pkg-a@1.0.0 latest'',
                 Exit ''npm dist-tag add pkg-a@1.0.0 latest'' a,
                 Spawn ''npm dist-tag add pkg-b@2.3.1 latest''], Stuck)
           | Some b \<Rightarrow>
               ([ReadFile ''/repo/lerna-publish-summary.json'',
                 Spawn ''npm dist-tag add pkg-a@1.0.0 latest'',
                 Exit ''npm dist-tag add pkg-a@1.0.0 latest'' a,
                 Spawn ''npm dist-tag add pkg-b@2.3.1 latest'',
                 Exit ''npm dist-tag add pkg-b@2.3.1 latest'' b],
                Finished Fulfilled
                  ((if a = 0 then [] else [ExecError ''npm dist-tag add pkg-a@1.0.0 latest'' a]) @
                   (if b = 0 then [] else [ExecError ''npm dist-tag add pkg-b@2.3.1 latest'' b])))))"
  by (simp add: script_def main_def example_path example_read two_packages_env_def
      two_packages_def callback_def template_def interpolate_def command_def exec_cases
      split: option.split)

subsection \<open>One invocation for each entry\<close>

text \<open>
  Claim C1 says that every entry of the summary gets exactly one invocation, with no
  omission. The script calls \<open>execSync\<close>, which returns when the child has exited, so an
  entry is reached only when the commands before it have exited: in the run of the summary of
  \<open>pkg-a\<close> 1.0.0 and \<open>pkg-b\<close> 2.3.1 with the tag \<open>latest\<close> where the command for
  \<open>pkg-a\<close> never exits, the run spawns that command and stays there, and no command is
  spawned for \<open>pkg-b\<close>.
\<close>

theorem later_entry_not_invoked:
  "script (two_packages_env (hangs_on ''npm dist-tag add pkg-a@1.0.0 latest''))
     (Some ''latest'') =
     ([ReadFile ''/repo/lerna-publish-summary.json'',
       Spawn ''npm dist-tag add pkg-a@1.0.0 latest''], Stuck) \<and>
   spawned (fst (script (two_packages_env (hangs_on ''npm dist-tag add pkg-a@1.0.0 latest''))
     (Some ''latest''))) = [''npm dist-tag add pkg-a@1.0.0 latest'']"
  by (simp add: two_packages_run hangs_on_def)

text \<open>
  When every command exits, with whatever status, the commands spawned for a summary of
  objects with a string \<open>packageName\<close> and a string \<open>version\<close> are the entries' commands,
  one for each entry.
\<close>

lemma entries_spawned_when_commands_exit:
  assumes "t \<noteq> []"
    and "read_file env (summary_path env) = Inr body"
    and "json_parse env body = Some (JArr entries)"
    and "list_all2 is_entry entries pvs"
    and "\<forall>pv\<in>set pvs. sh env (command (fst pv) (snd pv) t) \<noteq> None"
  shows "spawned (fst (script env (Some t))) = map (\<lambda>pv. command (fst pv) (snd pv) t) pvs"
proof -
  from array_map_entries [OF assms(4) assms(5)] obtain evs rs where
    m: "array_map (callback env t) entries =
          (evs, rs, Return (replicate (length entries) Undefined))"
    and sp: "spawned evs = map (\<lambda>pv. command (fst pv) (snd pv) t) pvs"
    by blast
  show ?thesis
    using sp by (simp add: script_run [OF assms(1)] main_array [OF assms(2,3)] m)
qed

subsection \<open>The order of spawns and exits\<close>

text \<open>
  Claim C2 says that every spawn is started without waiting for an earlier command to end.
  The script calls \<open>execSync\<close>, which returns when the child has exited, so in the run of
  the two-package summary the first command exits before the second is spawned, and when
  the first command never exits the second is never spawned. The theorem evaluates both runs.
\<close>

theorem second_spawn_after_first_exit:
  "fst (script (two_packages_env (exits_with 0)) (Some ''latest'')) =
     [ReadFile ''/repo/lerna-publish-summary.json'',
      Spawn ''npm dist-tag add pkg-a@1.0.0 latest'',
      Exit ''npm dist-tag add pkg-a@1.0.0 latest'' 0,
      Spawn ''npm dist-tag add pkg-b@2.3.1 latest'',
      Exit ''npm dist-tag add pkg-b@2.3.1 latest'' 0] \<and>
   script (two_packages_env never_exits) (Some ''latest'') =
     ([ReadFile ''/repo/lerna-publish-summary.json'',
       Spawn ''npm dist-tag add pkg-a@1.0.0 latest''], Stuck)"
  by (simp add: two_packages_run exits_with_def never_exits_def)

subsection \<open>A command that fails\<close>

text \<open>
  Claim C3 says that a failed command is not surfaced. In the run of the two-package summary
  where the command for \<open>pkg-a\<close> exits with status 1, both commands are spawned and the
  promise of \<open>main\<close> is fulfilled, but the rejected promise of \<open>exec\<close> is left without a
  handler and the process ends with exit code 1; when both commands succeed it ends with 0.
\<close>

theorem failed_command_changes_exit_code:
  "script (two_packages_env (fails_on ''npm dist-tag add pkg-a@1.0.0 latest''))
     (Some ''latest'') =
     ([ReadFile ''/repo/lerna-publish-summary.json'',
       Spawn ''npm dist-tag add pkg-a@1.0.0 latest'',
       Exit ''npm dist-tag add pkg-a@1.0.0 latest'' 1,
       Spawn ''npm dist-tag add pkg-b@2.3.1 latest'',
       Exit ''npm dist-tag add pkg-b@2.3.1 latest'' 0],
      Finished Fulfilled [ExecError ''npm dist-tag add pkg-a@1.0.0 latest'' 1]) \<and>
   exit_code (snd (script (two_packages_env (fails_on ''npm dist-tag add pkg-a@1.0.0 latest''))
     (Some ''latest''))) = Some 1 \<and>
   exit_code (snd (script (two_packages_env (exits_with 0)) (Some ''latest''))) = Some 0"
  by (simp add: two_packages_run exits_with_def fails_on_def)

text \<open>
  Claim C3, amended. The script does not catch or inspect the failure of a command: with
  the exit statuses changed in any way, the same commands are spawned, so a failure keeps no
  later invocation from being issued, and the module body and the promise of \<open>main\<close> end
  the same way. What a failure leaves is a rejection without a handler: the rejections of a
  finished run are those of its failed commands, and that of \<open>main\<close> if it is rejected,
  and the exit code is 0 only when there is none.
\<close>

theorem exit_status_not_handled:
  "spawned (fst (script (with_status f env) tag)) = spawned (fst (script env tag)) \<and>
   control (snd (script (with_status f env) tag)) = control (snd (script env tag)) \<and>
   (\<forall>p rs. snd (script env tag) = Finished p rs \<longrightarrow>
      rs = failures (fst (script env tag)) @ dropped p \<and>
      (exit_code (snd (script env tag)) = Some 0) =
        (failures (fst (script env tag)) = [] \<and> dropped p = []))"
proof (cases "\<exists>t. tag = Some t \<and> t \<noteq> []")
  case False
  then show ?thesis by (cases tag) (auto simp: script_def)
next
  case True
  then obtain t where t: "tag = Some t" "t \<noteq> []" by blast
  obtain e1 r1 c1 where a: "main env t = (e1, r1, c1)" by (cases "main env t")
  obtain e2 r2 c2 where b: "main (with_status f env) t = (e2, r2, c2)"
    by (cases "main (with_status f env) t")
  from main_with_status [of f env t] a b have same: "spawned e2 = spawned e1" "c2 = c1"
    by simp_all
  from main_failures [OF a] have r1: "r1 = failures e1" .
  show ?thesis using t a b same r1
    by (cases c1) (simp_all add: script_def)
qed

theorem exit_status_not_handled_witness:
  "spawned (fst (script (with_status Suc (two_packages_env (exits_with 0)))
      (Some ''latest''))) =
     [''npm dist-tag add pkg-a@1.0.0 latest'', ''npm dist-tag add pkg-b@2.3.1 latest''] \<and>
   snd (script (two_packages_env (exits_with 1)) (Some ''latest'')) =
     Finished Fulfilled
       [ExecError ''npm dist-tag add pkg-a@1.0.0 latest'' 1,
        ExecError ''npm dist-tag add pkg-b@2.3.1 latest'' 1] \<and>
   exit_code (snd (script (two_packages_env (exits_with 1)) (Some ''latest''))) \<noteq> Some 0"
proof -
  have good: "spawned (fst (script (two_packages_env (exits_with 0)) (Some ''latest''))) =
     [''npm dist-tag add pkg-a@1.0.0 latest'', ''npm dist-tag add pkg-b@2.3.1 latest'']"
    by (simp add: two_packages_run exits_with_def)
  have bad: "script (two_packages_env (exits_with 1)) (Some ''latest'') =
     ([ReadFile ''/repo/lerna-publish-summary.json'',
       Spawn ''npm dist-tag add pkg-a@1.0.0 latest'',
       Exit ''npm dist-tag add pkg-a@1.0.0 latest'' 1,
       Spawn ''npm dist-tag add pkg-b@2.3.1 latest'',
       Exit ''npm dist-tag add pkg-b@2.3.1 latest'' 1],
      Finished Fulfilled
       [ExecError ''npm dist-tag add pkg-a@1.0.0 latest'' 1,
        ExecError ''npm dist-tag add pkg-b@2.3.1 latest'' 1])"
    by (simp add: two_packages_run exits_with_def)
  show ?thesis
    using exit_status_not_handled [of Suc "two_packages_env (exits_with 0)" "Some ''latest''"]
      exit_status_not_handled [of id "two_packages_env (exits_with 1)" "Some ''latest''"]
      good bad
    by simp
qed

subsection \<open>The option \<open>--tag\<close>\<close>

text \<open>
  Claim C4. When the tag is absent, that is \<open>undefined\<close> or the empty string, the module
  body throws the error whose message names the option \<open>tag\<close>, the process ends with a
  code other than zero, and nothing has happened before: no file is read and no command is
  spawned.
\<close>

theorem missing_tag_fails_first:
  assumes "tag = None \<or> tag = Some []"
  shows "script env tag =
      ([], Uncaught (Error (''Required option `'' @ ''tag'' @ ''` not specified''))) \<and>
    exit_code (snd (script env tag)) = Some 1 \<and>
    files_read (fst (script env tag)) = [] \<and>
    spawned (fst (script env tag)) = []"
  using assms by (auto simp: script_def)

theorem missing_tag_fails_first_witness:
  "script (two_packages_env (exits_with 0)) None =
      ([], Uncaught (Error ''Required option `tag` not specified'')) \<and>
   exit_code (snd (script (two_packages_env (exits_with 0)) (Some []))) = Some 1"
proof -
  have h1: "(None :: string option) = None \<or> None = Some []" by simp
  have h2: "Some [] = None \<or> Some ([] :: string) = Some []" by simp
  show ?thesis
    using missing_tag_fails_first [OF h1, of "two_packages_env (exits_with 0)"]
      missing_tag_fails_first [OF h2, of "two_packages_env (exits_with 0)"]
    by simp
qed

subsection \<open>A summary that cannot be read or parsed\<close>

text \<open>
  Claim C5. With a tag given, when \<open>readFile\<close> fails (the file is missing or unreadable)
  the promise of \<open>main\<close> is rejected with that read error, and when the text is no valid
  JSON it is rejected with the \<open>SyntaxError\<close> of \<open>JSON.parse\<close>. Nobody handles the
  rejection, so the process ends with exit code 1, and in both cases no command has been
  spawned.
\<close>

theorem unreadable_summary_fails:
  assumes "t \<noteq> []"
  shows "(read_file env (summary_path env) = Inl err \<longrightarrow>
            script env (Some t) =
              ([ReadFile (summary_path env)],
               Finished (Rejected (ReadError err)) [ReadError err])) \<and>
         (read_file env (summary_path env) = Inr body \<and> json_parse env body = None \<longrightarrow>
            script env (Some t) =
              ([ReadFile (summary_path env)],
               Finished (Rejected SyntaxError) [SyntaxError])) \<and>
         ((\<exists>e. read_file env (summary_path env) = Inl e) \<or>
          (\<exists>b. read_file env (summary_path env) = Inr b \<and> json_parse env b = None) \<longrightarrow>
            spawned (fst (script env (Some t))) = [] \<and>
            exit_code (snd (script env (Some t))) = Some 1)"
  using assms by (auto simp: script_def main_def Let_def)

theorem unreadable_summary_fails_witness:
  "script (example_env ''{oops'' None (exits_with 0)) (Some ''latest'') =
     ([ReadFile ''/repo/lerna-publish-summary.json''],
      Finished (Rejected SyntaxError) [SyntaxError]) \<and>
   script ((empty_env (exits_with 0))\<lparr>module_url := [''tmp'', ''x'', ''tag-release.mjs'']\<rparr>)
       (Some ''latest'') =
     ([ReadFile ''/tmp/lerna-publish-summary.json''],
      Finished (Rejected (ReadError ''ENOENT'')) [ReadError ''ENOENT'']) \<and>
   spawned (fst (script (example_env ''{oops'' None (exits_with 0)) (Some ''latest''))) = [] \<and>
   exit_code (snd (script (example_env ''{oops'' None (exits_with 0)) (Some ''latest''))) =
     Some 1"
proof -
  let ?bad = "example_env ''{oops'' None (exits_with 0)"
  let ?gone = "(empty_env (exits_with 0))\<lparr>module_url := [''tmp'', ''x'', ''tag-release.mjs'']\<rparr>"
  have h: "''latest'' \<noteq> []" by simp
  have bad: "read_file ?bad (summary_path ?bad) = Inr ''{oops'' \<and>
      json_parse ?bad ''{oops'' = None"
    by (simp add: example_path example_read)
  have p: "summary_path ?gone = ''/tmp/lerna-publish-summary.json''"
    by (simp add: summary_path_def shorten_def pathname_def)
  have gone: "read_file ?gone (summary_path ?gone) = Inl ''ENOENT''"
    by (simp add: p) (simp add: empty_env_def example_env_def)
  show ?thesis
    using unreadable_summary_fails [OF h, of ?bad "[]" "''{oops''"]
      unreadable_summary_fails [OF h, of ?gone "''ENOENT''" "[]"] bad gone p
    by (simp add: example_path)
qed

subsection \<open>The empty summary\<close>

text \<open>
  Claim C6. With a tag given, when the summary file holds the empty array, the run spawns no
  command, the promise of \<open>main\<close> is fulfilled, no rejection is left, and the process ends
  with exit code 0.
\<close>

theorem empty_summary_succeeds:
  assumes "t \<noteq> []"
    and "read_file env (summary_path env) = Inr body"
    and "json_parse env body = Some (JArr [])"
  shows "script env (Some t) = ([ReadFile (summary_path env)], Finished Fulfilled []) \<and>
    spawned (fst (script env (Some t))) = [] \<and>
    exit_code (snd (script env (Some t))) = Some 0"
  using assms by (simp add: script_def main_def Let_def)

theorem empty_summary_succeeds_witness:
  "script (empty_env never_exits) (Some ''latest'') =
     ([ReadFile ''/repo/lerna-publish-summary.json''], Finished Fulfilled []) \<and>
   exit_code (snd (script (empty_env never_exits) (Some ''latest''))) = Some 0"
proof -
  let ?env = "empty_env never_exits"
  have h1: "''latest'' \<noteq> []" by simp
  have h2: "read_file ?env (summary_path ?env) = Inr ''[]''"
    by (simp add: empty_env_def example_path example_read)
  have h3: "json_parse ?env ''[]'' = Some (JArr [])"
    by (simp add: empty_env_def example_read)
  show ?thesis
    using empty_summary_succeeds [OF h1 h2 h3] by (simp add: empty_env_def example_path)
qed

subsection \<open>The file that is read\<close>

text \<open>
  Claim C7 says that the summary is loaded from the file \<open>lerna-publish-summary.json\<close> one
  directory above the script's own location. The script hands the \<open>pathname\<close> of the URL to
  \<open>readFile\<close>, and a URL writes some characters of a path in percent-encoding. For the
  script \<open>/w/sp ace/scripts/tag-release.mjs\<close> the run asks for the file
  \<open>/w/sp%20ace/lerna-publish-summary.json\<close>, which is not the summary in \<open>/w/sp ace\<close>,
  and ends with the read error.
\<close>

theorem encoded_path_is_read:
  "script spaced_env (Some ''latest'') =
     ([ReadFile ''/w/sp%20ace/lerna-publish-summary.json''],
      Finished (Rejected (ReadError ''ENOENT'')) [ReadError ''ENOENT'']) \<and>
   read_file spaced_env ''/w/sp ace/lerna-publish-summary.json'' = Inr two_packages_text"
proof -
  have p: "summary_path spaced_env = ''/w/sp%20ace/lerna-publish-summary.json''"
    by (simp add: spaced_env_def summary_path_def shorten_def pathname_def)
  have r: "read_file spaced_env ''/w/sp%20ace/lerna-publish-summary.json'' = Inl ''ENOENT''"
    by (simp add: spaced_env_def)
  have f: "read_file spaced_env ''/w/sp ace/lerna-publish-summary.json'' = Inr two_packages_text"
    by (simp add: spaced_env_def)
  show ?thesis
    using f by (simp add: script_def main_def p r)
qed

text \<open>
  What holds of every run with a tag: \<open>readFile\<close> is called once, for \<open>summary_path\<close>,
  and nothing else is read. Where the script \<open>file\<close> is in the directory \<open>dir\<close> of the
  module URL and \<open>up\<close> leads to that directory, this is the path of
  \<open>lerna-publish-summary.json\<close> in \<open>up\<close>, written as the URL writes it.
\<close>

lemma one_read_with_tag:
  assumes "t \<noteq> []"
  shows "files_read (fst (script env (Some t))) = [summary_path env] \<and>
    (module_url env = up @ [dir, file] \<and> (up \<noteq> [] \<or> \<not> is_drive_letter dir) \<longrightarrow>
       summary_path env = pathname (up @ [''lerna-publish-summary.json'']))"
proof -
  obtain evs rs c where m: "main env t = (evs, rs, c)" by (cases "main env t")
  with main_files_read [of env t] have "files_read evs = [summary_path env]" by simp
  with m assms have "files_read (fst (script env (Some t))) = [summary_path env]"
    by (simp add: script_def split: completion.split)
  then show ?thesis by (auto intro: summary_path_parent)
qed

subsection \<open>The dropped promise\<close>

text \<open>
  Claim C8 says that the promise of \<open>main\<close> resolves without depending on the completion
  of any spawned command. The promise of \<open>exec\<close> is dropped, but \<open>exec\<close> itself returns
  only when the child has exited: in the run of the two-package summary where the command
  for \<open>pkg-b\<close> never exits, \<open>map\<close> never returns, \<open>Promise.all\<close> is not reached and the
  promise of \<open>main\<close> never settles; where both commands exit, it is fulfilled.
\<close>

theorem main_waits_for_commands:
  "script (two_packages_env (hangs_on ''npm dist-tag add pkg-b@2.3.1 latest''))
     (Some ''latest'') =
     ([ReadFile ''/repo/lerna-publish-summary.json'',
       Spawn ''npm dist-tag add pkg-a@1.0.0 latest'',
       Exit ''npm dist-tag add pkg-a@1.0.0 latest'' 0,
       Spawn ''npm dist-tag add pkg-b@2.3.1 latest''], Stuck) \<and>
   snd (script (two_packages_env (exits_with 0)) (Some ''latest'')) = Finished Fulfilled []"
  by (simp add: two_packages_run exits_with_def hangs_on_def)

text \<open>
  The rest holds: whenever \<open>map\<close> returns, its result holds \<open>undefined\<close> for each entry,
  \<open>Promise.all\<close> of it is fulfilled and so is the promise of \<open>main\<close>, whatever the exit
  statuses were, and the rejections of the dropped promises are left without a handler.
\<close>

lemma main_fulfilled_when_map_returns:
  assumes "t \<noteq> []"
    and "read_file env (summary_path env) = Inr body"
    and "json_parse env body = Some (JArr xs)"
    and "array_map (callback env t) xs = (evs, rs, Return vs)"
  shows "vs = replicate (length xs) Undefined \<and>
    promise_all vs = Fulfilled \<and>
    rs = failures evs \<and>
    script env (Some t) = (ReadFile (summary_path env) # evs, Finished Fulfilled rs)"
proof -
  have vs: "vs = replicate (length xs) Undefined"
    using assms(4) by (rule array_map_undefined)
  then have all: "promise_all vs = Fulfilled" by (simp add: promise_all_undefined)
  have rs: "rs = failures evs" using assms(4) by (rule array_map_failures)
  show ?thesis
    using vs all rs by (simp add: script_run [OF assms(1)] main_array [OF assms(2,3)] assms(4))
qed

subsection \<open>The command line\<close>

text \<open>
  Claim C9. For an entry with a string \<open>packageName\<close> and a string \<open>version\<close>, the command
  handed to the shell is the text \<open>npm dist-tag add\<close>, a space, the package name, \<open>@\<close>, the
  version, a space and the tag, with the three strings as they are: nothing is escaped,
  quoted or checked, and the command is a function of these three strings alone.
\<close>

theorem command_is_plain_concatenation:
  assumes "map_of kv ''packageName'' = Some (JStr p)"
    and "map_of kv ''version'' = Some (JStr v)"
  shows "spawned (fst (callback env t (JObj kv))) =
    [''npm dist-tag add '' @ p @ ''@'' @ v @ '' '' @ t]"
  using callback_fields [of env kv p v t] assms
  by (simp add: interpolate_def command_def split: option.split)

theorem command_is_plain_concatenation_witness:
  "spawned (fst (callback (empty_env never_exits) ''x; echo $(id)''
      (JObj [(''version'', JStr ''1.0 || true''), (''packageName'', JStr ''a b''),
             (''extra'', JNull)]))) =
   [''npm dist-tag add a b@1.0 || true x; echo $(id)'']"
proof -
  have h1: "map_of [(''version'', JStr ''1.0 || true''), (''packageName'', JStr ''a b''),
             (''extra'', (JNull :: string json))] ''packageName'' = Some (JStr ''a b'')"
    by simp
  have h2: "map_of [(''version'', JStr ''1.0 || true''), (''packageName'', JStr ''a b''),
             (''extra'', (JNull :: string json))] ''version'' = Some (JStr ''1.0 || true'')"
    by simp
  show ?thesis
    using command_is_plain_concatenation [OF h1 h2] by simp
qed

subsection \<open>Entries without the two strings\<close>




end
